theory Spec2Isabelle
  imports Complex_Main
begin

section \<open>Crystalball: chunk budget, correlation schemas, spectra and clustering\<close>

text \<open>
  A shallow embedding of \<^verbatim>\<open>Crystalball/budget.py\<close> and of the pure parts of
  \<^verbatim>\<open>Crystalball/crystalball.py\<close>. Python integers are \<open>int\<close>; Python and numpy
  floating-point numbers are idealised as \<open>real\<close> (no rounding, no overflow). Where
  IEEE arithmetic leaves the reals, the model says so: in \<^verbatim>\<open>get_budget\<close> a division by
  zero and the square root of a negative number are error branches, and the flux spectrum
  is computed over the type \<open>fl\<close>, which has the two infinities and NaN beside the
  finite numbers. An exception is a value \<open>Inl e\<close> of \<open>py_error + 'a\<close>.
\<close>

subsection \<open>Exceptions\<close>

datatype py_error =
    KeyError
  | ValueError
  | IndexError
  | NameError
  | ZeroDivisionError
  | SystemExit int

subsection \<open>budget.py\<close>

text \<open>
  The fields of the parsed command line (\<^verbatim>\<open>create_parser\<close>) that \<^verbatim>\<open>get_budget\<close>
  reads: \<^verbatim>\<open>--num-workers\<close>, \<^verbatim>\<open>--model-chunks\<close> and \<^verbatim>\<open>--row-chunks\<close> are
  \<^verbatim>\<open>type=int\<close> with default 0, \<^verbatim>\<open>--memory-fraction\<close> is a float with default 0.5.
\<close>

record cb_args =
  num_workers :: int
  model_chunks :: int
  row_chunks :: int
  memory_fraction :: real

text \<open>
  What \<^verbatim>\<open>get_budget\<close> computes: the pair it returns and the expected memory usage
  it hands to the log (lines 30 and 38).
\<close>

record budget =
  rows_per_chunk :: int
  sources_per_chunk :: int
  memory_usage :: real

text \<open>Line 20: the dictionary \<^verbatim>\<open>{'complex':'complex64','dcomplex':'complex128'}\<close>.\<close>

definition dtype_table :: "string \<rightharpoonup> string" where
  "dtype_table = [''complex'' \<mapsto> ''complex64'', ''dcomplex'' \<mapsto> ''complex128'']"

text \<open>Line 21: \<^verbatim>\<open>np.dtype(data_type).itemsize\<close> of the two types of the table.\<close>

definition np_itemsize :: "string \<Rightarrow> int" where
  "np_itemsize dt = (if dt = ''complex64'' then 8 else 16)"

text \<open>\<^verbatim>\<open>np.int\<close> is Python's \<^verbatim>\<open>int\<close>: a float is truncated towards zero.\<close>

definition np_int :: "real \<Rightarrow> int" where
  "np_int x = (if 0 \<le> x then \<lfloor>x\<rfloor> else \<lceil>x\<rceil>)"

text \<open>
  \<^verbatim>\<open>get_budget\<close>. The two readings of the machine, \<^verbatim>\<open>psutil.virtual_memory()[0]\<close>
  and \<^verbatim>\<open>psutil.cpu_count()\<close>, are the parameters \<open>systmem\<close> and \<open>cpu_count\<close>;
  \<open>fudge_factor\<close> and \<open>row2source_ratio\<close> are the keyword arguments (2.0 and 100
  by default). A Python division by zero raises \<^verbatim>\<open>ZeroDivisionError\<close>; the square
  root of a negative number is NaN, which \<^verbatim>\<open>np.int\<close> refuses with \<^verbatim>\<open>ValueError\<close>;
  \<^verbatim>\<open>sys.exit(1)\<close> raises \<^verbatim>\<open>SystemExit(1)\<close>.
\<close>

definition get_budget ::
  "real \<Rightarrow> int \<Rightarrow> int \<Rightarrow> int \<Rightarrow> int \<Rightarrow> int \<Rightarrow> string \<Rightarrow> cb_args \<Rightarrow> real \<Rightarrow> int
    \<Rightarrow> py_error + budget" where
  "get_budget systmem cpu_count nr_sources nr_rows nr_chans nr_corrs data_type args
      fudge_factor row2source_ratio =
    (let nrthreads = (if num_workers args = 0 then cpu_count else num_workers args) in
     case dtype_table data_type of
       None \<Rightarrow> Inl KeyError
     | Some dt \<Rightarrow>
        (let data_bytes = np_itemsize dt;
             bytes_per_row_source = nr_chans * nr_corrs * data_bytes;
             memory_per_row_source = real_of_int bytes_per_row_source * fudge_factor
         in
         if model_chunks args \<noteq> 0 \<and> row_chunks args \<noteq> 0 then
           Inr \<lparr>rows_per_chunk = row_chunks args,
                sources_per_chunk = model_chunks args,
                memory_usage = real_of_int (row_chunks args) * real_of_int (model_chunks args)
                  * memory_per_row_source * real_of_int nrthreads\<rparr>
         else if model_chunks args = 0 \<and> row_chunks args = 0 then
           (if memory_per_row_source = 0 \<or> nrthreads = 0 then Inl ZeroDivisionError
            else
              let allowed_rowXsource_per_thread =
                    systmem * memory_fraction args / memory_per_row_source
                      / real_of_int nrthreads
              in
              if allowed_rowXsource_per_thread * real_of_int row2source_ratio < 0
              then Inl ValueError
              else
                let rows = np_int (min (real_of_int nr_rows)
                             (sqrt (allowed_rowXsource_per_thread
                                * real_of_int row2source_ratio)))
                in
                if row2source_ratio = 0 then Inl ZeroDivisionError
                else
                  let sources = np_int (min (real_of_int nr_sources)
                                  (real_of_int rows / real_of_int row2source_ratio))
                  in
                  Inr \<lparr>rows_per_chunk = rows,
                       sources_per_chunk = sources,
                       memory_usage = real_of_int rows * real_of_int sources
                         * memory_per_row_source * real_of_int nrthreads\<rparr>)
         else Inl (SystemExit 1)))"

text \<open>The worker count of line 9--10 and the element size of lines 20--21, by name.\<close>

definition worker_count :: "int \<Rightarrow> cb_args \<Rightarrow> int" where
  "worker_count cpu_count args = (if num_workers args = 0 then cpu_count else num_workers args)"

definition element_bytes :: "string \<Rightarrow> int" where
  "element_bytes data_type = (case dtype_table data_type of None \<Rightarrow> 0 | Some dt \<Rightarrow> np_itemsize dt)"

subsection \<open>crystalball.py: the correlation schema and the contraction pattern\<close>

text \<open>
  Binding a value inside \<open>py_error + 'a\<close>: the first exception ends the evaluation.
\<close>

definition bind_err :: "py_error + 'a \<Rightarrow> ('a \<Rightarrow> py_error + 'b) \<Rightarrow> py_error + 'b" where
  "bind_err m f = (case m of Inl e \<Rightarrow> Inl e | Inr x \<Rightarrow> f x)"

text \<open>Reading \<^verbatim>\<open>xs[i]\<close> for a literal index \<open>i \<ge> 0\<close>: out of range is \<^verbatim>\<open>IndexError\<close>.\<close>

definition getitem :: "'a list \<Rightarrow> nat \<Rightarrow> py_error + 'a" where
  "getitem xs i = (if i < length xs then Inr (xs ! i) else Inl IndexError)"

text \<open>
  The two columns of a row of the POLARIZATION table that the code reads:
  \<^verbatim>\<open>pol.NUM_CORR.values\<close> and \<^verbatim>\<open>pol.CORR_TYPE.values\<close>.
\<close>

record polarization =
  NUM_CORR :: int
  CORR_TYPE :: "int list"

text \<open>
  What \<^verbatim>\<open>corr_schema\<close> returns: a flat list of correlation types, or a list of
  lists of them.
\<close>

datatype schema = Codes "int list" | Rows "int list list"

definition corr_schema :: "polarization \<Rightarrow> py_error + schema" where
  "corr_schema pol =
    (let corrs = NUM_CORR pol; corr_types = CORR_TYPE pol in
     if corrs = 4 then
       bind_err (getitem corr_types 0) (\<lambda>c0.
       bind_err (getitem corr_types 1) (\<lambda>c1.
       bind_err (getitem corr_types 2) (\<lambda>c2.
       bind_err (getitem corr_types 3) (\<lambda>c3.
         Inr (Rows [[c0, c1], [c2, c3]])))))
     else if corrs = 2 then
       bind_err (getitem corr_types 0) (\<lambda>c0.
       bind_err (getitem corr_types 1) (\<lambda>c1.
         Inr (Codes [c0, c1])))
     else if corrs = 1 then
       bind_err (getitem corr_types 0) (\<lambda>c0. Inr (Codes [c0]))
     else Inl ValueError)"

text \<open>
  The shape of a schema, as \<^verbatim>\<open>np.shape\<close> reads a nested list: a list of rows has a
  second axis only when all its rows have one length.
\<close>

fun shape :: "schema \<Rightarrow> nat list" where
  "shape (Codes cs) = [length cs]"
| "shape (Rows []) = [0]"
| "shape (Rows (r # rs)) =
    (if list_all (\<lambda>x. length x = length r) rs then [Suc (length rs), length r]
     else [Suc (length rs)])"

definition einsum_schema :: "polarization \<Rightarrow> bool \<Rightarrow> py_error + string" where
  "einsum_schema pol dospec =
    (let corrs = NUM_CORR pol in
     if corrs = 4 then
       (if dospec then Inr ''srf, sfij -> srfij'' else Inr ''srf, sij -> srfij'')
     else if corrs = 2 \<or> corrs = 1 then
       (if dospec then Inr ''srf, sfi -> srfi'' else Inr ''srf, si -> srfi'')
     else Inl ValueError)"

text \<open>
  How \<^verbatim>\<open>einsum\<close> reads a pattern with an arrow: blanks are dropped, the operands'
  subscripts stand before \<^verbatim>\<open>->\<close>, separated by commas, the subscripts of the result
  after it. A label of an operand that is missing from the result is summed over; a
  label of the result is an axis of the result.
\<close>

fun split_arrow :: "string \<Rightarrow> (string \<times> string) option" where
  "split_arrow (a # b # cs) =
    (if a = CHR ''-'' \<and> b = CHR ''>'' then Some ([], cs)
     else map_option (\<lambda>(l, r). (a # l, r)) (split_arrow (b # cs)))"
| "split_arrow cs = None"

fun split_comma :: "string \<Rightarrow> string list" where
  "split_comma [] = [[]]"
| "split_comma (c # cs) =
    (if c = CHR '','' then [] # split_comma cs
     else (case split_comma cs of [] \<Rightarrow> [[c]] | x # xs \<Rightarrow> (c # x) # xs))"

definition parse_einsum :: "string \<Rightarrow> (string list \<times> string) option" where
  "parse_einsum p =
    map_option (\<lambda>(l, r). (split_comma l, r)) (split_arrow (filter (\<lambda>c. c \<noteq> CHR '' '') p))"

definition einsum_output :: "string \<Rightarrow> string option" where
  "einsum_output p = map_option snd (parse_einsum p)"

definition einsum_summed :: "string \<Rightarrow> string option" where
  "einsum_summed p =
    map_option (\<lambda>(ops, out). remdups (filter (\<lambda>c. c \<notin> set out) (concat ops)))
      (parse_einsum p)"

text \<open>
  A tensor is read at a list of indices, one per axis. \<open>assignments dims ls\<close> lists
  every way of giving each label of \<open>ls\<close> an index below its extent \<open>dims\<close>;
  \<open>at_labels\<close> reads the indices of an operand's labels from such an assignment.
\<close>

type_synonym tensor = "nat list \<Rightarrow> complex"

fun assignments :: "(char \<Rightarrow> nat) \<Rightarrow> string \<Rightarrow> (char \<times> nat) list list" where
  "assignments dims [] = [[]]"
| "assignments dims (c # cs) =
    concat (map (\<lambda>i. map (\<lambda>e. (c, i) # e) (assignments dims cs)) [0..<dims c])"

definition at_labels :: "(char \<times> nat) list \<Rightarrow> string \<Rightarrow> nat list" where
  "at_labels env ls = map (\<lambda>c. case map_of env c of None \<Rightarrow> 0 | Some i \<Rightarrow> i) ls"

text \<open>
  \<^verbatim>\<open>einsum(pattern, a, b)\<close> for two operands: the entry of the result at the indices
  \<open>idx\<close> of the result's labels is the sum, over the summed labels, of the products of
  the operands' entries.
\<close>

definition einsum :: "string \<Rightarrow> (char \<Rightarrow> nat) \<Rightarrow> tensor \<Rightarrow> tensor \<Rightarrow> py_error + tensor" where
  "einsum p dims a b =
    (case parse_einsum p of
       Some ([la, lb], out) \<Rightarrow>
         Inr (\<lambda>idx.
           let fixed = zip out idx;
               summed = remdups (filter (\<lambda>c. c \<notin> set out) (la @ lb))
           in sum_list (map (\<lambda>e. a (at_labels (fixed @ e) la) * b (at_labels (fixed @ e) lb))
                (assignments dims summed)))
     | _ \<Rightarrow> Inl ValueError)"

text \<open>
  Line 372 of \<^verbatim>\<open>predict\<close>:
  \<^verbatim>\<open>jones = da.einsum(einsum_schema(pol,args.spectra), phase, brightness)\<close>.
\<close>

definition jones ::
  "polarization \<Rightarrow> bool \<Rightarrow> (char \<Rightarrow> nat) \<Rightarrow> tensor \<Rightarrow> tensor \<Rightarrow> py_error + tensor" where
  "jones pol spectra dims phase brightness =
    bind_err (einsum_schema pol spectra) (\<lambda>p. einsum p dims phase brightness)"

subsection \<open>crystalball.py: time indices\<close>

text \<open>The position of the first entry equal to \<open>x\<close> in a list.\<close>

fun index_of :: "'a \<Rightarrow> 'a list \<Rightarrow> nat" where
  "index_of x [] = 0"
| "index_of x (y # ys) = (if x = y then 0 else Suc (index_of x ys))"

text \<open>
  \<^verbatim>\<open>unique(xs, return_inverse=True)\<close>: the distinct values of \<open>xs\<close> in ascending
  order, and for every entry of \<open>xs\<close> its position among them.
\<close>

definition np_unique_inverse :: "real list \<Rightarrow> real list \<times> nat list" where
  "np_unique_inverse xs = (let u = sort (remdups xs) in (u, map (\<lambda>x. index_of x u) xs))"

text \<open>
  Line 380 of \<^verbatim>\<open>predict\<close>:
  \<^verbatim>\<open>_, time_index = da.unique(xds.TIME.data, return_inverse=True)\<close>.
\<close>

definition time_index :: "real list \<Rightarrow> nat list" where
  "time_index ts = snd (np_unique_inverse ts)"

text \<open>
  The specification's wording, for comparison: indices given to the distinct
  timestamps in the order in which each is first met.
\<close>

definition first_occurrence_order :: "'a list \<Rightarrow> 'a list" where
  "first_occurrence_order xs = rev (remdups (rev xs))"

definition first_occurrence_index :: "'a list \<Rightarrow> nat list" where
  "first_occurrence_index xs = map (\<lambda>x. index_of x (first_occurrence_order xs)) xs"

subsection \<open>crystalball.py: the flux spectrum of the spectral-model path\<close>

text \<open>
  One source of the sky model, as \<^verbatim>\<open>predict\<close> reads it in lines 330--346: its row of
  \<^verbatim>\<open>stokes\<close> (column 0 is I), its row of \<^verbatim>\<open>spec_coeff\<close> and its entry of
  \<^verbatim>\<open>ref_freq\<close>. The arrays have one row per source, so the rows of one source are kept
  together.
\<close>

record source =
  stokes_I :: real
  stokes_Q :: real
  stokes_U :: real
  stokes_V :: real
  spec_coeff :: "real list"
  ref_freq :: real

text \<open>
  \<^verbatim>\<open>log_spec_ind\<close> comes from the sky-model reader, which is not part of these
  sources; \<^verbatim>\<open>predict\<close> only tests it with \<^verbatim>\<open>if log_spec_ind:\<close>. It is either one
  Python boolean or a numpy array of booleans with one entry per source (as
  \<^verbatim>\<open>__cluster\<close> indexes it). The truth value of an array is the truth value of its
  only entry; an empty array is false, and an array of more than one entry raises
  \<^verbatim>\<open>ValueError\<close> (its truth value is ambiguous).
\<close>

datatype py_flag = PyBool bool | NpBools "bool list"

fun truth :: "py_flag \<Rightarrow> py_error + bool" where
  "truth (PyBool b) = Inr b"
| "truth (NpBools []) = Inr False"
| "truth (NpBools [b]) = Inr b"
| "truth (NpBools (a # b # bs)) = Inl ValueError"

text \<open>
  The entries of the arrays of lines 333--342: a finite number, one of the two
  infinities, or NaN, with IEEE 754's rules for them in the operations that the lines
  use. Rounding, overflow and the sign of zero are not modelled; the numbers of the sky
  model and the frequencies are finite.
\<close>

datatype fl = Fin real | PInf | NInf | NaN

fun fl_add :: "fl \<Rightarrow> fl \<Rightarrow> fl" where
  "fl_add (Fin a) (Fin b) = Fin (a + b)"
| "fl_add NaN y = NaN"
| "fl_add x NaN = NaN"
| "fl_add PInf NInf = NaN"
| "fl_add NInf PInf = NaN"
| "fl_add PInf y = PInf"
| "fl_add x PInf = PInf"
| "fl_add NInf y = NInf"
| "fl_add x NInf = NInf"

fun fl_mul :: "fl \<Rightarrow> fl \<Rightarrow> fl" where
  "fl_mul (Fin a) (Fin b) = Fin (a * b)"
| "fl_mul NaN y = NaN"
| "fl_mul x NaN = NaN"
| "fl_mul PInf (Fin b) = (if b = 0 then NaN else if 0 < b then PInf else NInf)"
| "fl_mul NInf (Fin b) = (if b = 0 then NaN else if 0 < b then NInf else PInf)"
| "fl_mul (Fin a) PInf = (if a = 0 then NaN else if 0 < a then PInf else NInf)"
| "fl_mul (Fin a) NInf = (if a = 0 then NaN else if 0 < a then NInf else PInf)"
| "fl_mul PInf PInf = PInf"
| "fl_mul PInf NInf = NInf"
| "fl_mul NInf PInf = NInf"
| "fl_mul NInf NInf = PInf"

text \<open>The quotient of two finite numbers: a division by zero gives an infinity or NaN.\<close>

definition fl_div :: "real \<Rightarrow> real \<Rightarrow> fl" where
  "fl_div a b =
    (if b \<noteq> 0 then Fin (a / b) else if 0 < a then PInf else if a < 0 then NInf else NaN)"

text \<open>\<^verbatim>\<open>x ** n\<close> for an integer \<open>n \<ge> 0\<close>: anything to the power 0 is 1.\<close>

fun fl_pow :: "fl \<Rightarrow> nat \<Rightarrow> fl" where
  "fl_pow (Fin a) n = Fin (a ^ n)"
| "fl_pow PInf n = (if n = 0 then Fin 1 else PInf)"
| "fl_pow NInf n = (if n = 0 then Fin 1 else if even n then PInf else NInf)"
| "fl_pow NaN n = (if n = 0 then Fin 1 else NaN)"

text \<open>\<^verbatim>\<open>log\<close>: minus infinity at 0, NaN below 0.\<close>

fun fl_ln :: "fl \<Rightarrow> fl" where
  "fl_ln (Fin a) = (if 0 < a then Fin (ln a) else if a = 0 then NInf else NaN)"
| "fl_ln PInf = PInf"
| "fl_ln NInf = NaN"
| "fl_ln NaN = NaN"

fun fl_exp :: "fl \<Rightarrow> fl" where
  "fl_exp (Fin a) = Fin (exp a)"
| "fl_exp PInf = PInf"
| "fl_exp NInf = Fin 0"
| "fl_exp NaN = NaN"

text \<open>
  Lines 333 and 335, entry by entry of the (source, frequency) array:
  \<^verbatim>\<open>da.log(stokes[:,0,None])*frequency[None,:]**0\<close> or
  \<^verbatim>\<open>stokes[:,0,None]*frequency[None,:]**0\<close>.
\<close>

definition Is_init :: "bool \<Rightarrow> source list \<Rightarrow> real list \<Rightarrow> fl list list" where
  "Is_init lg srcs frequency =
    map (\<lambda>s. map (\<lambda>f. fl_mul (if lg then fl_ln (Fin (stokes_I s)) else Fin (stokes_I s))
                      (fl_pow (Fin f) 0))
              frequency) srcs"

text \<open>
  Lines 339 and 341, the term of one source at one frequency in turn \<open>jj\<close> of the loop:
  \<^verbatim>\<open>spec_coeff[:,jj,None]*da.log((frequency[None,:]/ref_freq[:,None])**(jj+1))\<close> or
  \<^verbatim>\<open>spec_coeff[:,jj,None]*(frequency[None,:]/ref_freq[:,None]-1)**(jj+1)\<close>.
\<close>

definition Is_term :: "bool \<Rightarrow> source \<Rightarrow> real \<Rightarrow> nat \<Rightarrow> fl" where
  "Is_term lg s f jj =
    fl_mul (Fin (spec_coeff s ! jj))
      (if lg then fl_ln (fl_pow (fl_div f (ref_freq s)) (jj + 1))
       else fl_pow (fl_add (fl_div f (ref_freq s)) (Fin (- 1))) (jj + 1))"

text \<open>One turn of the loop: \<^verbatim>\<open>Is+=\<close> adds every entry its source's term.\<close>

definition Is_step ::
  "bool \<Rightarrow> source list \<Rightarrow> real list \<Rightarrow> nat \<Rightarrow> fl list list \<Rightarrow> fl list list" where
  "Is_step lg srcs frequency jj Is =
    map2 (\<lambda>s row. map2 (\<lambda>f x. fl_add x (Is_term lg s f jj)) frequency row) srcs Is"

text \<open>
  Lines 333--342: \<^verbatim>\<open>Is\<close>. \<open>ncoef\<close> is \<^verbatim>\<open>spec_coeff.shape[1]\<close>. Every one of the
  tests \<^verbatim>\<open>if log_spec_ind:\<close> reads the same value, and the first of them raises if any
  does.
\<close>

definition spectrum_I ::
  "py_flag \<Rightarrow> nat \<Rightarrow> source list \<Rightarrow> real list \<Rightarrow> py_error + fl list list" where
  "spectrum_I log_spec_ind ncoef srcs frequency =
    bind_err (truth log_spec_ind) (\<lambda>lg.
      let Is = fold (Is_step lg srcs frequency) [0..<ncoef] (Is_init lg srcs frequency)
      in Inr (if lg then map (map fl_exp) Is else Is))"

text \<open>
  Lines 343--346: Q, U and V are zero arrays of the shape of \<^verbatim>\<open>Is\<close>, stacked with it
  along a new last axis.
\<close>

definition spectrum ::
  "py_flag \<Rightarrow> nat \<Rightarrow> source list \<Rightarrow> real list \<Rightarrow> py_error + fl list list list" where
  "spectrum log_spec_ind ncoef srcs frequency =
    bind_err (spectrum_I log_spec_ind ncoef srcs frequency) (\<lambda>Is.
      Inr (map (map (\<lambda>i. [i, Fin 0, Fin 0, Fin 0])) Is))"

text \<open>
  The specification's two models of one source at one frequency, for comparison:
  \<open>I(f) = stokes_I * 1 + \<Sum>j. coeff j * (f / refFreq - 1) ^ (j + 1)\<close> and
  \<open>log I(f) = log stokes_I + \<Sum>j. coeff j * log ((f / refFreq) ^ (j + 1))\<close>. They are
  read over the reals, and compared with the code only where every number of the code is
  finite.
\<close>

definition ordinary_model :: "source \<Rightarrow> real \<Rightarrow> real" where
  "ordinary_model s f =
    stokes_I s * 1
    + (\<Sum>j<length (spec_coeff s). spec_coeff s ! j * (f / ref_freq s - 1) ^ (j + 1))"

definition logarithmic_model :: "source \<Rightarrow> real \<Rightarrow> real" where
  "logarithmic_model s f =
    exp (ln (stokes_I s)
         + (\<Sum>j<length (spec_coeff s). spec_coeff s ! j * ln ((f / ref_freq s) ^ (j + 1))))"

text \<open>
  The specification's reading of the selection: each source is evaluated with the model
  of its own flag.
\<close>

definition per_source_spectrum :: "bool list \<Rightarrow> source list \<Rightarrow> real list \<Rightarrow> fl list list" where
  "per_source_spectrum flags srcs frequency =
    map2 (\<lambda>b s. map (\<lambda>f. Fin (if b then logarithmic_model s f else ordinary_model s f))
                   frequency)
      flags srcs"

subsection \<open>crystalball.py: clustering\<close>

text \<open>
  Names. \<^verbatim>\<open>__cluster\<close> is a function nested in \<^verbatim>\<open>predict\<close>. A name that
  \<^verbatim>\<open>__cluster\<close> reads and never assigns is looked up in \<^verbatim>\<open>predict\<close> if
  \<^verbatim>\<open>predict\<close> assigns it anywhere, and otherwise among the names of the module and
  the builtins. \<^verbatim>\<open>__cluster\<close> is called once, at line 270; a name of \<^verbatim>\<open>predict\<close>
  that is assigned only after that line is unbound at the call, and reading it raises
  \<^verbatim>\<open>NameError\<close>, as reading an unknown name does. (Four of the names listed as
  bound at the call are bound only when the \<^verbatim>\<open>if args.within:\<close> block has run;
  \<^verbatim>\<open>__cluster\<close> reads none of them.)
\<close>

definition cluster_locals :: "string list" where
  "cluster_locals =
    [''comp_type'', ''radec'', ''stokes'', ''spec_coeff'', ''ref_freq'', ''log_spec_ind'',
     ''gaussian_shape'', ''frequencies'', ''uniq_radec'', ''ncomp_type'', ''nradec'',
     ''nstokes'', ''nspec_coef'', ''nref_freq'', ''nlog_spec_ind'', ''ngaussian_shape'',
     ''urd'', ''deltasel'', ''polyspecsel'', ''sel'', ''Is'', ''jj'', ''logpolyspecsel'',
     ''Islogpoly'', ''popt'', ''pfitvar'', ''pcov'', ''rd'', ''stks'', ''spec'', ''ref'',
     ''lspec'', ''gs'']"

definition predict_bound_at_call :: "string list" where
  "predict_bound_at_call =
    [''args'', ''include_regions'', ''exclude_regions'', ''read_ds9'', ''tempfile'',
     ''tmpfile'', ''regfile'', ''comp_type'', ''radec'', ''stokes'', ''spec_coeff'',
     ''ref_freq'', ''log_spec_ind'', ''gaussian_shape'', ''tables'', ''field_ds'',
     ''ddid_ds'', ''spw_ds'', ''pol_ds'', ''frequencies'', ''__cluster'']"

definition predict_bound_later :: "string list" where
  "predict_bound_later =
    [''ms_rows'', ''ms_datatype'', ''gaussian_components'', ''gshape_chunks'',
     ''spec_chunks'', ''writes'', ''xds'', ''field'', ''ddid'', ''spw'', ''pol'',
     ''frequency'', ''corrs'', ''lm'', ''uvw'', ''Is'', ''Qs'', ''Us'', ''Vs'', ''spectrum'',
     ''phase'', ''brightness'', ''jones'', ''_'', ''time_index'', ''vis'', ''model_data'',
     ''write'']"

definition module_names :: "string list" where
  "module_names =
    [''absolute_import'', ''division'', ''print_function'', ''argparse'', ''ProgressBar'',
     ''np'', ''sys'', ''dask'', ''da'', ''xr'', ''xds_from_ms'', ''xds_from_table'',
     ''xds_to_table'', ''opt_import_error'', ''curve_fit'', ''radec_to_lm'',
     ''phase_delay'', ''predict_vis'', ''convert'', ''gaussian'', ''requires_optional'',
     ''casacore'', ''get_budget'', ''ms_preprocess'', ''import_from_wsclean'', ''log'',
     ''create_parser'', ''support_tables'', ''corr_schema'', ''einsum_schema'',
     ''predict'']"

definition builtin_names :: "string list" where
  "builtin_names =
    [''range'', ''zip'', ''len'', ''str'', ''max'', ''open'', ''ValueError'', ''ImportError'']"

definition free_name :: "string \<Rightarrow> py_error + unit" where
  "free_name n =
    (if n \<in> set predict_bound_at_call then Inr ()
     else if n \<in> set predict_bound_later then Inl NameError
     else if n \<in> set module_names \<or> n \<in> set builtin_names then Inr ()
     else Inl NameError)"

text \<open>
  Indexing a one-dimensional numpy array. An integer selects one entry (a negative one
  counts from the end) and a boolean mask of the array's length the entries it marks;
  a floating-point number and an array of floating-point numbers are not valid indices
  and raise \<^verbatim>\<open>IndexError\<close>. The selected entries are returned as a list.
\<close>

datatype np_key =
    IntKey int
  | BoolMask "bool list"
  | FloatKey real
  | FloatArrayKey "(real \<times> real) list"

fun np_getitem :: "'a list \<Rightarrow> np_key \<Rightarrow> py_error + 'a list" where
  "np_getitem xs (IntKey i) =
    (if 0 \<le> i \<and> i < int (length xs) then Inr [xs ! nat i]
     else if i < 0 \<and> - int (length xs) \<le> i then Inr [xs ! nat (int (length xs) + i)]
     else Inl IndexError)"
| "np_getitem xs (BoolMask m) =
    (if length m = length xs then Inr (map fst (filter snd (zip xs m))) else Inl IndexError)"
| "np_getitem xs (FloatKey x) = Inl IndexError"
| "np_getitem xs (FloatArrayKey a) = Inl IndexError"

text \<open>
  Line 201: \<^verbatim>\<open>np.unique(radec)\<close> of the array of (right ascension, declination) rows:
  without an axis, the array is flattened, and the distinct numbers come back sorted.
\<close>

definition np_unique_flat :: "(real \<times> real) list \<Rightarrow> real list" where
  "np_unique_flat radec = sort (remdups (concat (map (\<lambda>(ra, dec). [ra, dec]) radec)))"

text \<open>The seven lists that \<^verbatim>\<open>__cluster\<close> builds (lines 202--208) and returns.\<close>

record clustered =
  ncomp_type :: "string list"
  nradec :: "real list list"
  nstokes :: "real list list"
  nspec_coef :: "real list list"
  nref_freq :: "real list"
  nlog_spec_ind :: "bool list"
  ngaussian_shape :: "real list list"

definition no_components :: clustered where
  "no_components = \<lparr>ncomp_type = [], nradec = [], nstokes = [], nspec_coef = [],
     nref_freq = [], nlog_spec_ind = [], ngaussian_shape = []\<rparr>"

text \<open>
  The body of the loop over \<^verbatim>\<open>uniq_radec\<close>. Line 211 indexes \<^verbatim>\<open>comp_type\<close> with
  the number \<^verbatim>\<open>urd\<close>; line 212 reads the name \<^verbatim>\<open>spec_coef\<close>. Lines 213--244 (the
  selections, the two spectra, scipy's \<^verbatim>\<open>curve_fit\<close>, the fallback and the appends)
  read the other arrays of the sky model and are the parameter \<open>refit\<close>.
\<close>

definition cluster_body ::
  "(bool list \<Rightarrow> real \<Rightarrow> clustered \<Rightarrow> py_error + clustered) \<Rightarrow> string list \<Rightarrow> real
    \<Rightarrow> clustered \<Rightarrow> py_error + clustered" where
  "cluster_body refit comp_type urd st =
    bind_err (np_getitem comp_type (FloatKey urd)) (\<lambda>cts.
      let deltasel = map (\<lambda>c. c = ''POINT'') cts in
      bind_err (free_name ''spec_coef'') (\<lambda>_.
        refit deltasel urd st))"

fun cluster_loop ::
  "(bool list \<Rightarrow> real \<Rightarrow> clustered \<Rightarrow> py_error + clustered) \<Rightarrow> string list \<Rightarrow> real list
    \<Rightarrow> clustered \<Rightarrow> py_error + clustered" where
  "cluster_loop refit comp_type [] st = Inr st"
| "cluster_loop refit comp_type (urd # urds) st =
    bind_err (cluster_body refit comp_type urd st) (cluster_loop refit comp_type urds)"

text \<open>
  \<^verbatim>\<open>__cluster\<close>. After the loop, line 247 indexes \<^verbatim>\<open>comp_type\<close> with the array
  \<^verbatim>\<open>radec\<close>; the arguments of \<^verbatim>\<open>zip\<close> (lines 248--253) read \<^verbatim>\<open>spec_coef\<close>; the
  loop that appends the Gaussian components (lines 254--260) is the parameter
  \<open>add_gaussians\<close>; the \<^verbatim>\<open>return\<close> (lines 263--265) reads \<^verbatim>\<open>nspec_coeff\<close>.
\<close>

definition cluster ::
  "(bool list \<Rightarrow> real \<Rightarrow> clustered \<Rightarrow> py_error + clustered)
    \<Rightarrow> (bool list \<Rightarrow> clustered \<Rightarrow> py_error + clustered)
    \<Rightarrow> string list \<Rightarrow> (real \<times> real) list \<Rightarrow> py_error + clustered" where
  "cluster refit add_gaussians comp_type radec =
    (let uniq_radec = np_unique_flat radec in
     bind_err (cluster_loop refit comp_type uniq_radec no_components) (\<lambda>st.
     bind_err (np_getitem comp_type (FloatArrayKey radec)) (\<lambda>cts.
       let sel = map (\<lambda>c. c = ''GAUSSIAN'') cts in
       bind_err (free_name ''spec_coef'') (\<lambda>_.
       bind_err (add_gaussians sel st) (\<lambda>st'.
       bind_err (free_name ''nspec_coeff'') (\<lambda>_.
         Inr st'))))))"

text \<open>
  Lines 267--277 of \<^verbatim>\<open>predict\<close>: unless \<^verbatim>\<open>--dontcluster\<close> is given, the sky model
  is replaced by what \<^verbatim>\<open>__cluster\<close> returns. \<open>None\<close> stands for the sky model as it
  was read.
\<close>

definition predict_cluster ::
  "bool \<Rightarrow> (bool list \<Rightarrow> real \<Rightarrow> clustered \<Rightarrow> py_error + clustered)
    \<Rightarrow> (bool list \<Rightarrow> clustered \<Rightarrow> py_error + clustered)
    \<Rightarrow> string list \<Rightarrow> (real \<times> real) list \<Rightarrow> py_error + clustered option" where
  "predict_cluster dontcluster refit add_gaussians comp_type radec =
    (if \<not> dontcluster
     then bind_err (cluster refit add_gaussians comp_type radec) (\<lambda>st. Inr (Some st))
     else Inr None)"

subsection \<open>Facts about the budget\<close>

lemma dtype_table_complex: "dtype_table ''complex'' = Some ''complex64''"
  by (simp add: dtype_table_def)

lemma dtype_table_dcomplex: "dtype_table ''dcomplex'' = Some ''complex128''"
  by (simp add: dtype_table_def)

lemma np_itemsize_pos: "0 < np_itemsize dt"
  by (simp add: np_itemsize_def)





lemma get_budget_example_auto:
  "get_budget 17179869184 4 3000 100000 4096 4 ''dcomplex''
     \<lparr>num_workers = 0, model_chunks = 0, row_chunks = 0, memory_fraction = 1 / 2\<rparr> 2 100
   = Inr \<lparr>rows_per_chunk = 640, sources_per_chunk = 6, memory_usage = 8053063680\<rparr>"
proof -
  have s: "sqrt (409600::real) = 640"
    by (rule real_sqrt_unique) simp_all
  have f: "\<lfloor>(32::real) / 5\<rfloor> = 6"
    by (simp add: floor_eq_iff)
  show ?thesis
    by (simp add: get_budget_def dtype_table_def np_itemsize_def np_int_def s f)
qed

text \<open>
  C5. In the auto-sized path (both \<^verbatim>\<open>--row-chunks\<close> and \<^verbatim>\<open>--model-chunks\<close> are 0),
  for positive channel count, a correlation count among 1, 2 and 4, one of the two data
  types and positive memory, fudge factor, worker count and row-to-source ratio,
  \<^verbatim>\<open>get_budget\<close> returns, and the memory usage it reports is exactly
  rows per chunk * sources per chunk * channels * correlations * element byte size
  * fudge factor * worker count. (The numbers of sources and rows may be any integers.)
\<close>

theorem get_budget_auto_memory_usage:
  assumes "0 < nr_chans" and "nr_corrs = 1 \<or> nr_corrs = 2 \<or> nr_corrs = 4"
    and "data_type = ''complex'' \<or> data_type = ''dcomplex''"
    and "model_chunks args = 0" and "row_chunks args = 0"
    and "0 \<le> systmem" and "0 \<le> memory_fraction args" and "0 < fudge_factor"
    and "0 < worker_count cpu_count args" and "0 < row2source_ratio"
  shows "\<exists>b. get_budget systmem cpu_count nr_sources nr_rows nr_chans nr_corrs data_type args
              fudge_factor row2source_ratio = Inr b
           \<and> memory_usage b =
               real_of_int (rows_per_chunk b) * real_of_int (sources_per_chunk b)
                 * real_of_int nr_chans * real_of_int nr_corrs
                 * real_of_int (element_bytes data_type) * fudge_factor
                 * real_of_int (worker_count cpu_count args)"
proof -
  obtain dt where dt: "dtype_table data_type = Some dt"
    using assms(3) dtype_table_complex dtype_table_dcomplex by blast
  let ?w = "worker_count cpu_count args"
  let ?m = "real_of_int (nr_chans * nr_corrs * np_itemsize dt) * fudge_factor"
  have corrs: "0 < nr_corrs"
    using assms(2) by auto
  have "0 < nr_chans * nr_corrs * np_itemsize dt"
    using assms(1) corrs np_itemsize_pos [of dt] by simp
  then have "0 < real_of_int (nr_chans * nr_corrs * np_itemsize dt)"
    by (simp only: of_int_0_less_iff)
  then have m: "0 < ?m"
    using assms(8) by (rule mult_pos_pos)
  have w: "0 < real_of_int ?w"
    using assms(9) by simp
  have "0 \<le> systmem * memory_fraction args"
    using assms(6,7) by (rule mult_nonneg_nonneg)
  then have "0 \<le> systmem * memory_fraction args / ?m"
    using m by (simp only: zero_le_divide_iff) simp
  then have "0 \<le> systmem * memory_fraction args / ?m / real_of_int ?w"
    using w by (simp only: zero_le_divide_iff) simp
  moreover have "0 \<le> real_of_int row2source_ratio"
    using assms(10) by simp
  ultimately have "0 \<le> systmem * memory_fraction args / ?m / real_of_int ?w
      * real_of_int row2source_ratio"
    by (rule mult_nonneg_nonneg)
  then have nonneg: "\<not> systmem * memory_fraction args / ?m / real_of_int ?w
      * real_of_int row2source_ratio < 0"
    by (simp only: not_less)
  have m0: "?m \<noteq> 0" and w0: "?w \<noteq> 0" and r0: "row2source_ratio \<noteq> 0"
    using m assms(9,10) by auto
  show ?thesis
    using dt assms(4,5) nonneg m0 w0 r0
    by (simp add: get_budget_def Let_def element_bytes_def worker_count_def)
qed

theorem get_budget_auto_memory_usage_witness:
  "\<exists>b. get_budget 17179869184 4 3000 100000 4096 4 ''dcomplex''
          \<lparr>num_workers = 0, model_chunks = 0, row_chunks = 0, memory_fraction = 1 / 2\<rparr> 2 100
        = Inr b
      \<and> rows_per_chunk b = 640 \<and> sources_per_chunk b = 6
      \<and> memory_usage b = 640 * 6 * 4096 * 4 * 16 * 2 * 4"
proof -
  let ?args = "\<lparr>num_workers = 0, model_chunks = 0, row_chunks = 0, memory_fraction = 1 / 2\<rparr>"
  have "\<exists>b. get_budget 17179869184 4 3000 100000 4096 4 ''dcomplex'' ?args 2 100 = Inr b
      \<and> memory_usage b =
          real_of_int (rows_per_chunk b) * real_of_int (sources_per_chunk b)
            * real_of_int 4096 * real_of_int 4
            * real_of_int (element_bytes ''dcomplex'') * 2
            * real_of_int (worker_count 4 ?args)"
    by (rule get_budget_auto_memory_usage) (simp_all add: worker_count_def)
  then show ?thesis
    by (simp add: get_budget_example_auto element_bytes_def dtype_table_def np_itemsize_def
        worker_count_def)
qed

text \<open>
  C6. For one of the two data types of the table: when exactly one of
  \<^verbatim>\<open>--row-chunks\<close> and \<^verbatim>\<open>--model-chunks\<close> is nonzero, \<^verbatim>\<open>get_budget\<close> ends the run
  with \<^verbatim>\<open>sys.exit(1)\<close> and returns no chunk sizes at all; when both are nonzero, it
  returns the user's two values as they are.
\<close>

theorem get_budget_user_override:
  assumes "data_type = ''complex'' \<or> data_type = ''dcomplex''"
  shows "((row_chunks args = 0) \<noteq> (model_chunks args = 0) \<longrightarrow>
            get_budget systmem cpu_count nr_sources nr_rows nr_chans nr_corrs data_type args
              fudge_factor row2source_ratio = Inl (SystemExit 1))
       \<and> (row_chunks args \<noteq> 0 \<and> model_chunks args \<noteq> 0 \<longrightarrow>
            (\<exists>b. get_budget systmem cpu_count nr_sources nr_rows nr_chans nr_corrs data_type
                   args fudge_factor row2source_ratio = Inr b
                 \<and> rows_per_chunk b = row_chunks args
                 \<and> sources_per_chunk b = model_chunks args))"
proof -
  obtain dt where dt: "dtype_table data_type = Some dt"
    using assms dtype_table_complex dtype_table_dcomplex by blast
  show ?thesis
    using dt by (auto simp: get_budget_def Let_def)
qed

theorem get_budget_user_override_witness:
  "get_budget 17179869184 8 10 50 1 1 ''complex''
      \<lparr>num_workers = 0, model_chunks = 0, row_chunks = 7, memory_fraction = 1 / 2\<rparr> 2 100
    = Inl (SystemExit 1)
   \<and> get_budget 17179869184 8 10 50 1 1 ''complex''
      \<lparr>num_workers = 0, model_chunks = 5, row_chunks = 0, memory_fraction = 1 / 2\<rparr> 2 100
    = Inl (SystemExit 1)
   \<and> (\<exists>b. get_budget 17179869184 8 10 50 1 1 ''complex''
      \<lparr>num_workers = 0, model_chunks = 5, row_chunks = 7, memory_fraction = 1 / 2\<rparr> 2 100
    = Inr b \<and> rows_per_chunk b = 7 \<and> sources_per_chunk b = 5)"
  using get_budget_user_override [of "''complex''"
      "\<lparr>num_workers = 0, model_chunks = 0, row_chunks = 7, memory_fraction = 1 / 2\<rparr>"
      17179869184 8 10 50 1 1 2 100]
    get_budget_user_override [of "''complex''"
      "\<lparr>num_workers = 0, model_chunks = 5, row_chunks = 0, memory_fraction = 1 / 2\<rparr>"
      17179869184 8 10 50 1 1 2 100]
    get_budget_user_override [of "''complex''"
      "\<lparr>num_workers = 0, model_chunks = 5, row_chunks = 7, memory_fraction = 1 / 2\<rparr>"
      17179869184 8 10 50 1 1 2 100]
  by simp




subsection \<open>Facts about the schemas\<close>

lemma parse_spec4: "parse_einsum ''srf, sfij -> srfij'' = Some ([''srf'', ''sfij''], ''srfij'')"
  by (simp add: parse_einsum_def)

lemma parse_flat4: "parse_einsum ''srf, sij -> srfij'' = Some ([''srf'', ''sij''], ''srfij'')"
  by (simp add: parse_einsum_def)

lemma parse_spec2: "parse_einsum ''srf, sfi -> srfi'' = Some ([''srf'', ''sfi''], ''srfi'')"
  by (simp add: parse_einsum_def)

lemma parse_flat2: "parse_einsum ''srf, si -> srfi'' = Some ([''srf'', ''si''], ''srfi'')"
  by (simp add: parse_einsum_def)

lemmas parse_patterns = parse_spec4 parse_flat4 parse_spec2 parse_flat2

text \<open>
  C8. A correlation count other than 1, 2 and 4 makes both \<^verbatim>\<open>corr_schema\<close> and
  \<^verbatim>\<open>einsum_schema\<close> raise \<^verbatim>\<open>ValueError\<close>: no layout is returned. For a count of
  1, 2 or 4 and a one-dimensional array of at least that many correlation types,
  \<^verbatim>\<open>corr_schema\<close> returns exactly the list of the first type, the list of the first
  two, or the two rows of the first two and the next two types: schemas of shape (1,),
  (2,) and (2, 2).
\<close>

theorem corr_schema_shapes:
  "(NUM_CORR pol \<noteq> 1 \<and> NUM_CORR pol \<noteq> 2 \<and> NUM_CORR pol \<noteq> 4 \<longrightarrow>
      corr_schema pol = Inl ValueError \<and> einsum_schema pol dospec = Inl ValueError)
   \<and> (nat (NUM_CORR pol) \<le> length (CORR_TYPE pol) \<longrightarrow>
        (NUM_CORR pol = 1 \<longrightarrow>
           corr_schema pol = Inr (Codes [CORR_TYPE pol ! 0])
         \<and> shape (Codes [CORR_TYPE pol ! 0]) = [1])
      \<and> (NUM_CORR pol = 2 \<longrightarrow>
           corr_schema pol = Inr (Codes [CORR_TYPE pol ! 0, CORR_TYPE pol ! 1])
         \<and> shape (Codes [CORR_TYPE pol ! 0, CORR_TYPE pol ! 1]) = [2])
      \<and> (NUM_CORR pol = 4 \<longrightarrow>
           corr_schema pol = Inr (Rows [[CORR_TYPE pol ! 0, CORR_TYPE pol ! 1],
                                        [CORR_TYPE pol ! 2, CORR_TYPE pol ! 3]])
         \<and> shape (Rows [[CORR_TYPE pol ! 0, CORR_TYPE pol ! 1],
                         [CORR_TYPE pol ! 2, CORR_TYPE pol ! 3]]) = [2, 2]))"
  by (auto simp: corr_schema_def einsum_schema_def bind_err_def getitem_def Let_def)

theorem corr_schema_shapes_witness:
  "corr_schema \<lparr>NUM_CORR = 3, CORR_TYPE = [9, 10, 11]\<rparr> = Inl ValueError
   \<and> einsum_schema \<lparr>NUM_CORR = 3, CORR_TYPE = [9, 10, 11]\<rparr> True = Inl ValueError
   \<and> corr_schema \<lparr>NUM_CORR = 1, CORR_TYPE = [9]\<rparr> = Inr (Codes [9])
   \<and> shape (Codes [9]) = [1]
   \<and> corr_schema \<lparr>NUM_CORR = 2, CORR_TYPE = [9, 12]\<rparr> = Inr (Codes [9, 12])
   \<and> shape (Codes [9, 12]) = [2]
   \<and> corr_schema \<lparr>NUM_CORR = 4, CORR_TYPE = [9, 10, 11, 12]\<rparr>
       = Inr (Rows [[9, 10], [11, 12]])
   \<and> shape (Rows [[9, 10], [11, 12]]) = [2, 2]"
  using corr_schema_shapes [of "\<lparr>NUM_CORR = 3, CORR_TYPE = [9, 10, 11]\<rparr>" True]
    corr_schema_shapes [of "\<lparr>NUM_CORR = 1, CORR_TYPE = [9]\<rparr>" True]
    corr_schema_shapes [of "\<lparr>NUM_CORR = 2, CORR_TYPE = [9, 12]\<rparr>" True]
    corr_schema_shapes [of "\<lparr>NUM_CORR = 4, CORR_TYPE = [9, 10, 11, 12]\<rparr>" True]
  by simp

text \<open>A ragged list of rows is not a 2 x 2 schema.\<close>

lemma shape_ragged: "shape (Rows [[9, 10], []]) = [2]"
  by simp

text \<open>
  C2, as the code has it. For a correlation count of 1, 2 or 4 and either value of the
  spectral flag, the pattern that \<^verbatim>\<open>einsum_schema\<close> selects sums over no label at
  all: the source label \<open>s\<close> is the first axis of the result, followed by the row, the
  frequency and the correlation axes, and every entry of \<^verbatim>\<open>jones\<close> is the product of
  one source's phase and that source's brightness. All four patterns keep the source
  axis in the same way.
\<close>

theorem einsum_schema_keeps_source_axis:
  assumes "NUM_CORR pol = 1 \<or> NUM_CORR pol = 2 \<or> NUM_CORR pol = 4"
  shows "\<exists>p t. einsum_schema pol dospec = Inr p
      \<and> einsum_summed p = Some []
      \<and> einsum_output p = Some (if NUM_CORR pol = 4 then ''srfij'' else ''srfi'')
      \<and> jones pol dospec dims phase brightness = Inr t
      \<and> (\<forall>s r f i j.
            t (if NUM_CORR pol = 4 then [s, r, f, i, j] else [s, r, f, i])
            = phase [s, r, f]
              * brightness (if NUM_CORR pol = 4
                            then (if dospec then [s, f, i, j] else [s, i, j])
                            else (if dospec then [s, f, i] else [s, i])))"
  using assms
  by (auto simp: einsum_schema_def jones_def bind_err_def einsum_def einsum_summed_def
      einsum_output_def parse_patterns at_labels_def)

theorem einsum_schema_keeps_source_axis_witness:
  "\<exists>p t. einsum_schema \<lparr>NUM_CORR = 4, CORR_TYPE = [9, 10, 11, 12]\<rparr> True = Inr p
      \<and> einsum_summed p = Some []
      \<and> einsum_output p = Some ''srfij''
      \<and> jones \<lparr>NUM_CORR = 4, CORR_TYPE = [9, 10, 11, 12]\<rparr> True (\<lambda>c. 2)
            (\<lambda>idx. of_nat (sum_list idx) + 1) (\<lambda>idx. 2) = Inr t
      \<and> (\<forall>s r f i j. t [s, r, f, i, j] = (of_nat (s + (r + f)) + 1) * 2)"
  using einsum_schema_keeps_source_axis
    [of "\<lparr>NUM_CORR = 4, CORR_TYPE = [9, 10, 11, 12]\<rparr>" True "\<lambda>c. 2"
      "\<lambda>idx. of_nat (sum_list idx) + 1" "\<lambda>idx. 2"]
  by simp

text \<open>
  C2 as the specification states it fails: the pattern for four correlations and the
  spectral model is \<^verbatim>\<open>srf, sfij -> srfij\<close>, whose result carries the source label
  \<open>s\<close> and which sums over no label, so the contraction does not collapse the source
  dimension.
\<close>

theorem einsum_schema_counterexample:
  "einsum_schema \<lparr>NUM_CORR = 4, CORR_TYPE = [9, 10, 11, 12]\<rparr> True
     = Inr ''srf, sfij -> srfij''
   \<and> einsum_output ''srf, sfij -> srfij'' = Some ''srfij''
   \<and> einsum_summed ''srf, sfij -> srfij'' = Some []
   \<and> CHR ''s'' \<in> set ''srfij''"
  by (simp add: einsum_schema_def einsum_output_def einsum_summed_def parse_spec4)

subsection \<open>Facts about the time indices\<close>

lemma index_of_less: "x \<in> set ys \<Longrightarrow> index_of x ys < length ys"
  by (induction ys) auto

lemma nth_index_of: "x \<in> set ys \<Longrightarrow> ys ! index_of x ys = x"
  by (induction ys) auto

lemma index_of_nth: "distinct ys \<Longrightarrow> k < length ys \<Longrightarrow> index_of (ys ! k) ys = k"
proof (induction ys arbitrary: k)
  case Nil
  then show ?case by simp
next
  case (Cons y ys)
  then show ?case by (cases k) auto
qed

lemma strict_sorted_nth_less:
  assumes "sorted ys" and "distinct ys" and "i < length ys" and "j < length ys"
  shows "(ys ! i < ys ! j) = (i < j)"
proof -
  have s: "sorted_wrt (<) ys"
    using assms(1,2) by (simp add: strict_sorted_iff)
  show ?thesis
  proof (cases "i < j")
    case True
    then show ?thesis
      using s assms(4) by (simp add: sorted_wrt_nth_less)
  next
    case False
    then have "j \<le> i" by simp
    then have "ys ! j \<le> ys ! i"
      using assms(1,3) by (simp add: sorted_nth_mono)
    then show ?thesis
      using False by simp
  qed
qed

lemma index_of_mono:
  assumes "sorted ys" and "distinct ys" and "x \<in> set ys" and "y \<in> set ys"
  shows "(index_of x ys < index_of y ys) = (x < y)"
  using strict_sorted_nth_less [OF assms(1,2) index_of_less [OF assms(3)]
      index_of_less [OF assms(4)]]
  by (simp add: nth_index_of assms(3,4))

lemma sorted_wrt_remdups: "sorted_wrt P xs \<Longrightarrow> sorted_wrt P (remdups xs)"
  by (induction xs) auto

lemma first_occurrence_order_sorted:
  fixes xs :: "real list"
  assumes "sorted xs"
  shows "first_occurrence_order xs = sort (remdups xs)"
proof -
  have "sorted_wrt (\<lambda>x y. y \<le> x) (rev xs)"
    using assms by (simp add: sorted_wrt_rev)
  then have "sorted_wrt (\<lambda>x y. y \<le> x) (remdups (rev xs))"
    by (rule sorted_wrt_remdups)
  then have "sorted (first_occurrence_order xs)"
    by (simp add: first_occurrence_order_def sorted_wrt_rev)
  moreover have "distinct (first_occurrence_order xs)"
    by (simp add: first_occurrence_order_def)
  moreover have "set (first_occurrence_order xs) = set (sort (remdups xs))"
    by (simp add: first_occurrence_order_def)
  ultimately show ?thesis
    by (intro sorted_distinct_set_unique) simp_all
qed

lemma index_of_image:
  assumes "distinct ys"
  shows "(\<lambda>x. index_of x ys) ` set ys = {0..<length ys}"
proof (intro equalityI subsetI)
  fix k assume "k \<in> (\<lambda>x. index_of x ys) ` set ys"
  then show "k \<in> {0..<length ys}"
    by (auto simp: index_of_less)
next
  fix k assume "k \<in> {0..<length ys}"
  then have k: "k < length ys" by simp
  then have "index_of (ys ! k) ys = k"
    using assms by (simp add: index_of_nth)
  moreover have "ys ! k \<in> set ys"
    using k by simp
  ultimately show "k \<in> (\<lambda>x. index_of x ys) ` set ys"
    by (metis imageI)
qed

text \<open>
  C9, as the code has it. The time indices are dense and follow the ascending order of
  the timestamps: the indices used are exactly \<open>0, ..., n - 1\<close> for \<open>n\<close> distinct
  timestamps, every row's index points at its own timestamp among the sorted distinct
  ones, and one row's index is smaller than another's exactly when its timestamp is
  earlier. For timestamps that never decrease along the rows this is the order of first
  occurrence.
\<close>

theorem time_index_ascending:
  "length (time_index ts) = length ts
   \<and> set (time_index ts) = {0..<card (set ts)}
   \<and> (\<forall>k<length ts. fst (np_unique_inverse ts) ! (time_index ts ! k) = ts ! k)
   \<and> (\<forall>i<length ts. \<forall>j<length ts.
         (time_index ts ! i < time_index ts ! j) = (ts ! i < ts ! j))
   \<and> (sorted ts \<longrightarrow> time_index ts = first_occurrence_index ts)"
proof -
  let ?u = "sort (remdups ts)"
  have u: "sorted ?u" "distinct ?u" "set ?u = set ts"
    by simp_all
  have ti: "time_index ts = map (\<lambda>x. index_of x ?u) ts"
    by (simp add: time_index_def np_unique_inverse_def Let_def)
  have len: "length ?u = card (set ts)"
    by (simp add: length_remdups_card_conv)
  have "set (time_index ts) = (\<lambda>x. index_of x ?u) ` set ?u"
    by (simp add: ti)
  also have "\<dots> = {0..<length ?u}"
    using u(2) by (rule index_of_image)
  finally have dense: "set (time_index ts) = {0..<card (set ts)}"
    using len by simp
  have inv: "\<forall>k<length ts. fst (np_unique_inverse ts) ! (time_index ts ! k) = ts ! k"
    by (simp add: ti np_unique_inverse_def Let_def nth_index_of)
  have mono: "\<forall>i<length ts. \<forall>j<length ts.
      (time_index ts ! i < time_index ts ! j) = (ts ! i < ts ! j)"
  proof (intro allI impI)
    fix i j assume "i < length ts" and "j < length ts"
    then show "(time_index ts ! i < time_index ts ! j) = (ts ! i < ts ! j)"
      using index_of_mono [OF u(1,2), of "ts ! i" "ts ! j"] by (simp add: ti)
  qed
  have first: "sorted ts \<longrightarrow> time_index ts = first_occurrence_index ts"
    by (simp add: ti first_occurrence_index_def first_occurrence_order_sorted)
  show ?thesis
    using dense inv mono first by (simp add: ti)
qed

lemma time_index_example: "time_index [5, 3, 5, 8] = [1, 0, 1, 2]"
  by (simp add: time_index_def np_unique_inverse_def Let_def)

theorem time_index_ascending_witness:
  "length (time_index [5, 3, 5, 8]) = 4
   \<and> set (time_index [5, 3, 5, 8]) = {0..<card (set [5, 3, 5, 8 :: real])}
   \<and> time_index [5, 3, 5, 8] = [1, 0, 1, 2]
   \<and> time_index [3, 5, 5, 8] = first_occurrence_index [3, 5, 5, 8 :: real]"
  using time_index_ascending [of "[5, 3, 5, 8]"] time_index_ascending [of "[3, 5, 5, 8]"]
    time_index_example
  by simp

text \<open>
  C9 as the specification states it fails: of the timestamps 5, 3 the first one met, 5,
  gets index 1 and not 0, since 3 is the smaller one.
\<close>

theorem time_index_counterexample:
  "time_index [5, 3] = [1, 0] \<and> first_occurrence_index [5, 3 :: real] = [0, 1]"
  by (simp add: time_index_def np_unique_inverse_def Let_def first_occurrence_index_def
      first_occurrence_order_def)

subsection \<open>Facts about the flux spectrum\<close>

text \<open>
  Where the reference frequency is not zero and, under the logarithmic model, the ratio
  of frequency and reference frequency is positive, the term of a turn of the loop is
  finite.
\<close>

lemma Is_term_finite:
  assumes "ref_freq s \<noteq> 0" and "lg \<longrightarrow> 0 < f / ref_freq s"
  shows "Is_term lg s f jj =
    Fin (spec_coeff s ! jj
         * (if lg then ln ((f / ref_freq s) ^ (jj + 1)) else (f / ref_freq s - 1) ^ (jj + 1)))"
proof (cases lg)
  case True
  then have "0 < (f / ref_freq s) ^ (jj + 1)"
    using assms(2) by (simp only: zero_less_power simp_thms)
  then show ?thesis
    using True assms(1) by (simp add: Is_term_def fl_div_def)
next
  case False
  then show ?thesis
    using assms(1) by (simp add: Is_term_def fl_div_def)
qed

text \<open>The partial sum that \<open>n\<close> turns of the loop have added to one entry.\<close>

lemma Is_loop:
  assumes "\<forall>s\<in>set srcs. ref_freq s \<noteq> 0"
    and "lg \<longrightarrow> (\<forall>s\<in>set srcs. 0 < stokes_I s \<and> (\<forall>f\<in>set frequency. 0 < f / ref_freq s))"
  shows "fold (Is_step lg srcs frequency) [0..<n] (Is_init lg srcs frequency) =
    map (\<lambda>s. map (\<lambda>f. Fin ((if lg then ln (stokes_I s) else stokes_I s)
                + (\<Sum>j<n. spec_coeff s ! j
                     * (if lg then ln ((f / ref_freq s) ^ (j + 1))
                        else (f / ref_freq s - 1) ^ (j + 1)))))
              frequency) srcs"
proof (induction n)
  case 0
  show ?case
    using assms(2) by (auto simp: Is_init_def)
next
  case (Suc n)
  have zip_same: "\<And>g (xs :: 'a list). zip xs (map g xs) = map (\<lambda>x. (x, g x)) xs"
    by (simp add: zip_map2 zip_same_conv_map)
  let ?F = "Is_step lg srcs frequency"
  let ?g = "\<lambda>n s f. (if lg then ln (stokes_I s) else stokes_I s)
                + (\<Sum>j<n. spec_coeff s ! j
                     * (if lg then ln ((f / ref_freq s) ^ (j + 1))
                        else (f / ref_freq s - 1) ^ (j + 1)))"
  have "fold ?F [0..<Suc n] (Is_init lg srcs frequency)
      = ?F n (fold ?F [0..<n] (Is_init lg srcs frequency))"
    by simp
  also have "\<dots> = ?F n (map (\<lambda>s. map (\<lambda>f. Fin (?g n s f)) frequency) srcs)"
    by (simp only: Suc)
  also have "\<dots> = map (\<lambda>s. map (\<lambda>f. fl_add (Fin (?g n s f)) (Is_term lg s f n)) frequency) srcs"
    by (simp add: Is_step_def zip_same o_def)
  also have "\<dots> = map (\<lambda>s. map (\<lambda>f. Fin (?g (Suc n) s f)) frequency) srcs"
  proof (intro map_cong refl)
    fix s f assume s: "s \<in> set srcs" and f: "f \<in> set frequency"
    have "ref_freq s \<noteq> 0"
      using assms(1) s by blast
    moreover have "lg \<longrightarrow> 0 < f / ref_freq s"
      using assms(2) s f by blast
    ultimately have "Is_term lg s f n =
        Fin (spec_coeff s ! n
             * (if lg then ln ((f / ref_freq s) ^ (n + 1)) else (f / ref_freq s - 1) ^ (n + 1)))"
      by (rule Is_term_finite)
    then show "fl_add (Fin (?g n s f)) (Is_term lg s f n) = Fin (?g (Suc n) s f)"
      by simp
  qed
  finally show ?case .
qed

text \<open>
  With a flag whose truth value is defined (one Python boolean, or an array of at most
  one entry), the path is one switch for the whole collection: where every number stays
  finite, every source is evaluated with the logarithmic model if the flag is true, and
  every source with the ordinary one if it is false.
\<close>

lemma spectrum_I_one_model:
  assumes "truth log_spec_ind = Inr lg"
    and "\<forall>s\<in>set srcs. length (spec_coeff s) = ncoef"
    and "\<forall>s\<in>set srcs. ref_freq s \<noteq> 0"
    and "lg \<longrightarrow> (\<forall>s\<in>set srcs. 0 < stokes_I s \<and> (\<forall>f\<in>set frequency. 0 < f / ref_freq s))"
  shows "spectrum_I log_spec_ind ncoef srcs frequency =
    Inr (map (\<lambda>s. map (\<lambda>f. Fin (if lg then logarithmic_model s f else ordinary_model s f))
                frequency) srcs)"
proof -
  have "spectrum_I log_spec_ind ncoef srcs frequency =
      (let Is = fold (Is_step lg srcs frequency) [0..<ncoef] (Is_init lg srcs frequency)
       in Inr (if lg then map (map fl_exp) Is else Is))"
    using assms(1) by (simp add: spectrum_I_def bind_err_def)
  also have "\<dots> = Inr (map (\<lambda>s. map (\<lambda>f.
        if lg then Fin (exp (ln (stokes_I s)
                     + (\<Sum>j<ncoef. spec_coeff s ! j * ln ((f / ref_freq s) ^ (j + 1)))))
        else Fin (stokes_I s
                     + (\<Sum>j<ncoef. spec_coeff s ! j * (f / ref_freq s - 1) ^ (j + 1))))
      frequency) srcs)"
    unfolding Is_loop [OF assms(3,4)] Let_def by (cases lg) (simp_all add: o_def)
  also have "\<dots> = Inr (map (\<lambda>s. map (\<lambda>f.
        Fin (if lg then logarithmic_model s f else ordinary_model s f)) frequency) srcs)"
    using assms(2)
    by (simp add: logarithmic_model_def ordinary_model_def del: power_Suc cong: map_cong)
  finally show ?thesis .
qed

text \<open>
  Outside that range the code's numbers are not finite, and the model follows them: a
  reference frequency of 0 gives an infinite entry under the ordinary model.
\<close>

lemma spectrum_I_ref_freq_zero:
  "spectrum_I (PyBool False) 1
      [\<lparr>stokes_I = 1, stokes_Q = 0, stokes_U = 0, stokes_V = 0, spec_coeff = [2],
        ref_freq = 0\<rparr>] [1]
    = Inr [[PInf]]"
  by (simp add: spectrum_I_def bind_err_def Is_step_def Is_init_def Is_term_def fl_div_def)

text \<open>A flag array of two or more entries, uniform or mixed, makes the path raise.\<close>

lemma spectrum_I_flag_array:
  "2 \<le> length flags \<Longrightarrow> spectrum_I (NpBools flags) ncoef srcs frequency = Inl ValueError"
proof -
  assume "2 \<le> length flags"
  then obtain a b bs where "flags = a # b # bs"
    by (cases flags; cases "tl flags") auto
  then show ?thesis
    by (simp add: spectrum_I_def bind_err_def)
qed

text \<open>
  C1 on the code: for two sources of which the first has a true log-flag and the second
  a false one, \<^verbatim>\<open>if log_spec_ind:\<close> raises \<^verbatim>\<open>ValueError\<close>; the specification has the
  first source evaluated with the logarithmic model and the second with the ordinary
  one.
\<close>

theorem spectrum_I_mixed_flags:
  "spectrum_I (NpBools [True, False]) 1
      [\<lparr>stokes_I = 1, stokes_Q = 0, stokes_U = 0, stokes_V = 0, spec_coeff = [2],
        ref_freq = 1\<rparr>,
       \<lparr>stokes_I = 3, stokes_Q = 0, stokes_U = 0, stokes_V = 0, spec_coeff = [2],
        ref_freq = 1\<rparr>] [2]
    = Inl ValueError
   \<and> per_source_spectrum [True, False]
      [\<lparr>stokes_I = 1, stokes_Q = 0, stokes_U = 0, stokes_V = 0, spec_coeff = [2],
        ref_freq = 1\<rparr>,
       \<lparr>stokes_I = 3, stokes_Q = 0, stokes_U = 0, stokes_V = 0, spec_coeff = [2],
        ref_freq = 1\<rparr>] [2]
    = [[Fin (exp (2 * ln 2))], [Fin 5]]"
  by (simp add: spectrum_I_def bind_err_def per_source_spectrum_def logarithmic_model_def
      ordinary_model_def)

subsection \<open>Facts about the clustering\<close>

lemma free_name_spec_coef: "free_name ''spec_coef'' = Inl NameError"
  by (simp add: free_name_def predict_bound_at_call_def predict_bound_later_def
      module_names_def builtin_names_def)

lemma free_name_frequency: "free_name ''frequency'' = Inl NameError"
  by (simp add: free_name_def predict_bound_at_call_def predict_bound_later_def)

lemma free_name_log_spec_coef: "free_name ''log_spec_coef'' = Inl NameError"
  by (simp add: free_name_def predict_bound_at_call_def predict_bound_later_def
      module_names_def builtin_names_def)

lemma free_name_Ispoly: "free_name ''Ispoly'' = Inl NameError"
  by (simp add: free_name_def predict_bound_at_call_def predict_bound_later_def
      module_names_def builtin_names_def)

lemma free_name_nspec_coeff: "free_name ''nspec_coeff'' = Inl NameError"
  by (simp add: free_name_def predict_bound_at_call_def predict_bound_later_def
      module_names_def builtin_names_def)

lemma not_cluster_locals:
  "''spec_coef'' \<notin> set cluster_locals \<and> ''frequency'' \<notin> set cluster_locals
   \<and> ''log_spec_coef'' \<notin> set cluster_locals \<and> ''Ispoly'' \<notin> set cluster_locals
   \<and> ''nspec_coeff'' \<notin> set cluster_locals"
  by (simp add: cluster_locals_def)

lemma np_unique_flat_nonempty: "radec \<noteq> [] \<Longrightarrow> np_unique_flat radec \<noteq> []"
proof -
  assume "radec \<noteq> []"
  then obtain ra dec rest where "radec = (ra, dec) # rest"
    by (cases radec) auto
  then have "ra \<in> set (np_unique_flat radec)"
    by (simp add: np_unique_flat_def)
  then show ?thesis
    by auto
qed

lemma cluster_loop_first:
  "urds \<noteq> [] \<Longrightarrow> cluster_loop refit comp_type urds st = Inl IndexError"
  by (cases urds) (simp_all add: cluster_body_def bind_err_def)

lemma cluster_never_returns: "\<exists>e. cluster refit add_gaussians comp_type radec = Inl e"
  by (simp add: cluster_def Let_def bind_err_def split: sum.splits)

lemma cluster_nonempty:
  "radec \<noteq> [] \<Longrightarrow> cluster refit add_gaussians comp_type radec = Inl IndexError"
  by (simp add: cluster_def Let_def bind_err_def cluster_loop_first np_unique_flat_nonempty)

text \<open>
  C10, as the code has it. For every non-empty list of positions, and whatever the
  lines behind \<open>refit\<close> and \<open>add_gaussians\<close> do, \<^verbatim>\<open>__cluster\<close> raises on the very
  first unique coordinate and returns nothing, and so does the clustering step of
  \<^verbatim>\<open>predict\<close> when clustering is enabled. The error is the \<^verbatim>\<open>IndexError\<close> of line
  211, where the array of component types is indexed with a floating-point number,
  before the first unbound name is read. The names \<^verbatim>\<open>spec_coef\<close>, \<^verbatim>\<open>frequency\<close>,
  \<^verbatim>\<open>log_spec_coef\<close> and \<^verbatim>\<open>Ispoly\<close> are not assigned in \<^verbatim>\<open>__cluster\<close> and are
  unbound when it runs: reading any of them raises \<^verbatim>\<open>NameError\<close>.
\<close>

theorem cluster_raises_on_first_position:
  assumes "radec \<noteq> []"
  shows "cluster refit add_gaussians comp_type radec = Inl IndexError
       \<and> predict_cluster False refit add_gaussians comp_type radec = Inl IndexError
       \<and> free_name ''spec_coef'' = Inl NameError
       \<and> free_name ''frequency'' = Inl NameError
       \<and> free_name ''log_spec_coef'' = Inl NameError
       \<and> free_name ''Ispoly'' = Inl NameError
       \<and> ''spec_coef'' \<notin> set cluster_locals \<and> ''frequency'' \<notin> set cluster_locals
       \<and> ''log_spec_coef'' \<notin> set cluster_locals \<and> ''Ispoly'' \<notin> set cluster_locals"
  using cluster_nonempty [OF assms] not_cluster_locals
  by (simp add: predict_cluster_def bind_err_def free_name_spec_coef free_name_frequency
      free_name_log_spec_coef free_name_Ispoly)

theorem cluster_raises_on_first_position_witness:
  "cluster (\<lambda>sel urd st. Inr st) (\<lambda>sel st. Inr st) [''POINT''] [(1 / 2, 1 / 4)]
     = Inl IndexError
   \<and> predict_cluster False (\<lambda>sel urd st. Inr st) (\<lambda>sel st. Inr st) [''POINT'']
       [(1 / 2, 1 / 4)]
     = Inl IndexError"
  using cluster_raises_on_first_position
    [of "[(1 / 2, 1 / 4)]" "\<lambda>sel urd st. Inr st" "\<lambda>sel st. Inr st" "[''POINT'']"]
  by simp

text \<open>
  C10 as stated fails: for one point source the error that \<^verbatim>\<open>__cluster\<close> raises is
  the \<^verbatim>\<open>IndexError\<close> of line 211 and not an unbound-name error.
\<close>

theorem cluster_counterexample:
  "cluster (\<lambda>sel urd st. Inr st) (\<lambda>sel st. Inr st) [''POINT''] [(1 / 2, 1 / 4)]
     = Inl IndexError
   \<and> cluster (\<lambda>sel urd st. Inr st) (\<lambda>sel st. Inr st) [''POINT''] [(1 / 2, 1 / 4)]
     \<noteq> Inl NameError"
  by (simp add: cluster_nonempty)

text \<open>
  C3 on the code: for two point sources at two distinct positions \<^verbatim>\<open>__cluster\<close>
  raises and returns no entries, where the specification has two.
\<close>

theorem cluster_two_positions:
  "cluster refit add_gaussians [''POINT'', ''POINT''] [(1 / 10, 2 / 10), (3 / 10, 4 / 10)]
     = Inl IndexError"
  by (simp add: cluster_nonempty)

text \<open>
  The lines behind \<open>refit\<close>, among them the call of \<^verbatim>\<open>curve_fit\<close> and the fallback
  for a covariance that is not finite (lines 227--237), are never reached: for every sky
  model \<^verbatim>\<open>__cluster\<close> raises before them, the empty one included (line 247), and what
  it does is the same whatever those lines do.
\<close>

lemma cluster_always_raises: "cluster refit add_gaussians comp_type radec = Inl IndexError"
proof (cases "radec = []")
  case True
  then show ?thesis
    by (simp add: cluster_def np_unique_flat_def bind_err_def)
next
  case False
  then show ?thesis
    by (rule cluster_nonempty)
qed

lemma cluster_never_refits:
  "cluster refit add_gaussians comp_type radec = cluster refit' add_gaussians' comp_type radec"
  by (simp add: cluster_always_raises)

end
